theory Spec2Isabelle
  imports Main "HOL-Library.Sublist"
begin

section \<open>Numbers and their decimal rendering\<close>

text \<open>
  Identifiers are JavaScript numbers that only ever hold integers here (the seed, the
  counter \<open>nextId++\<close>, values accepted by \<open>@IsNumber()\<close>); they are modelled as \<open>int\<close>.
  The loss of precision of a double beyond \<open>2^53\<close> is outside the model.
  Template literals such as \<open>`Post with ID ${id} not found`\<close> render the number in decimal.
\<close>

definition digit_char :: "nat \<Rightarrow> char" where
  "digit_char d = ''0123456789'' ! d"

fun decimal :: "nat \<Rightarrow> string" where
  "decimal n = (if 10 \<le> n then decimal (n div 10) else []) @ [digit_char (n mod 10)]"

declare decimal.simps [simp del]

definition show_number :: "int \<Rightarrow> string" where
  "show_number i = (if 0 \<le> i then decimal (nat i) else CHR ''-'' # decimal (nat (- i)))"

section \<open>The post store (PostsService)\<close>

subsection \<open>Data\<close>

text \<open>The entity \<open>Post\<close>: \<open>{ id, userId, title, body }\<close>. The field \<open>id\<close> is named
  \<open>pid\<close> because \<open>id\<close> is the identity function of HOL.\<close>

record post =
  pid :: int
  userId :: int
  title :: string
  body :: string

text \<open>\<open>CreatePostDto\<close>: the three fields \<open>userId\<close>, \<open>title\<close>, \<open>body\<close>, all required.\<close>

record CreatePostDto =
  c_userId :: int
  c_title :: string
  c_body :: string

text \<open>\<open>UpdatePostDto extends PartialType(CreatePostDto)\<close> and adds an optional \<open>id\<close>:
  every field may be absent (\<open>None\<close>).\<close>

record UpdatePostDto =
  u_id :: "int option"
  u_userId :: "int option"
  u_title :: "string option"
  u_body :: "string option"

text \<open>The exceptions the service throws, with their messages.\<close>

datatype http_exception =
    NotFoundException string
  | BadRequestException string

text \<open>The private fields of the service: the list \<open>posts\<close> and the counter \<open>nextId\<close>.\<close>

record posts_state =
  posts :: "post list"
  nextId :: int

text \<open>\<open>UsersService.exists\<close> is injected; the post store only calls it. It is a
  parameter of every operation that uses it.\<close>

type_synonym users_exists = "int \<Rightarrow> bool"

subsection \<open>The seeded state\<close>

definition nl :: string where
  "nl = [CHR 0x0A]"

definition post1 :: post where
  "post1 = \<lparr>pid = 1, userId = 1,
     title = ''sunt aut facere repellat provident occaecati excepturi optio reprehenderit'',
     body = ''quia et suscipit'' @ nl @ ''suscipit recusandae consequuntur expedita et cum'' @ nl
       @ ''reprehenderit molestiae ut ut quas totam'' @ nl
       @ ''nostrum rerum est autem sunt rem eveniet architecto''\<rparr>"

definition post2 :: post where
  "post2 = \<lparr>pid = 2, userId = 1,
     title = ''qui est esse'',
     body = ''est rerum tempore vitae'' @ nl
       @ ''sequi sint nihil reprehenderit dolor beatae ea dolores neque'' @ nl
       @ ''fugiat blanditiis voluptate porro vel nihil molestiae ut reiciendis'' @ nl
       @ ''qui aperiam non debitis possimus qui neque nisi nulla''\<rparr>"

definition post3 :: post where
  "post3 = \<lparr>pid = 3, userId = 1,
     title = ''ea molestias quasi exercitationem repellat qui ipsa sit aut'',
     body = ''et iusto sed quo iure'' @ nl @ ''voluptatem occaecati omnis eligendi aut ad'' @ nl
       @ ''voluptatem doloribus vel accusantium quis pariatur'' @ nl
       @ ''molestiae porro eius odio et labore et velit aut''\<rparr>"

definition post4 :: post where
  "post4 = \<lparr>pid = 4, userId = 1,
     title = ''eum et est occaecati'',
     body = ''ullam et saepe reiciendis voluptatem adipisci'' @ nl
       @ ''sit amet autem assumenda provident rerum culpa'' @ nl
       @ ''quis hic commodi nesciunt rem tenetur doloremque ipsam iure'' @ nl
       @ ''quis sunt voluptatem rerum illo velit''\<rparr>"

definition post5 :: post where
  "post5 = \<lparr>pid = 5, userId = 1,
     title = ''nesciunt quas odio'',
     body = ''repudiandae veniam quaerat sunt sed'' @ nl @ ''alias aut fugiat sit autem sed est'' @ nl
       @ ''voluptatem omnis possimus esse voluptatibus quis'' @ nl
       @ ''est aut tenetur dolor neque''\<rparr>"

definition post6 :: post where
  "post6 = \<lparr>pid = 6, userId = 2,
     title = ''dolorem eum magni eos aperiam quia'',
     body = ''ut aspernatur corporis harum nihil quis provident sequi'' @ nl
       @ ''mollitia nobis aliquid molestiae'' @ nl
       @ ''perspiciatis et ea nemo ab reprehenderit accusantium quas'' @ nl
       @ ''voluptate dolores velit et doloremque molestiae''\<rparr>"

definition post7 :: post where
  "post7 = \<lparr>pid = 7, userId = 2,
     title = ''magnam facilis autem'',
     body = ''dolore placeat quibusdam ea quo vitae'' @ nl
       @ ''magni quis enim qui quis quo nemo aut saepe'' @ nl
       @ ''quidem repellat excepturi ut quia'' @ nl
       @ ''sunt ut sequi eos ea sed quas''\<rparr>"

definition post8 :: post where
  "post8 = \<lparr>pid = 8, userId = 2,
     title = ''dolorem dolore est ipsam'',
     body = ''dignissimos aperiam dolorem qui eum'' @ nl
       @ ''facilis quibusdam animi sint suscipit qui sint possimus cum'' @ nl
       @ ''quaerat magni maiores excepturi'' @ nl
       @ ''ipsam ut commodi dolor voluptatum modi aut vitae''\<rparr>"

definition post9 :: post where
  "post9 = \<lparr>pid = 9, userId = 3,
     title = ''nesciunt iure omnis dolorem tempora et accusantium'',
     body = ''consectetur animi nesciunt iure dolore'' @ nl @ ''enim quia ad'' @ nl
       @ ''veniam autem ut quam aut nobis'' @ nl
       @ ''et est aut quod aut provident voluptas autem voluptas''\<rparr>"

definition post10 :: post where
  "post10 = \<lparr>pid = 10, userId = 3,
     title = ''optio molestias id quia eum'',
     body = ''quo et expedita modi cum officia vel magni'' @ nl
       @ ''doloribus qui repudiandae'' @ nl @ ''vero nisi sit'' @ nl
       @ ''quos veniam quod sed accusamus veritatis error''\<rparr>"

definition seeded :: posts_state where
  "seeded = \<lparr>posts = [post1, post2, post3, post4, post5, post6, post7, post8, post9, post10],
     nextId = 11\<rparr>"

subsection \<open>Array primitives of the runtime\<close>

text \<open>\<open>Array.prototype.findIndex\<close>: the index of the first element satisfying the
  predicate, \<open>-1\<close> when there is none.\<close>

fun findIndex :: "('a \<Rightarrow> bool) \<Rightarrow> 'a list \<Rightarrow> int" where
  "findIndex P [] = - 1"
| "findIndex P (x # xs) =
     (if P x then 0 else (let i = findIndex P xs in if i = - 1 then - 1 else i + 1))"

text \<open>\<open>Array.prototype.find\<close>: the first element satisfying the predicate, \<open>undefined\<close>
  (\<open>None\<close>) when there is none.\<close>

fun find_first :: "('a \<Rightarrow> bool) \<Rightarrow> 'a list \<Rightarrow> 'a option" where
  "find_first P [] = None"
| "find_first P (x # xs) = (if P x then Some x else find_first P xs)"

text \<open>\<open>xs.splice(i, 1)\<close> for an index \<open>0 \<le> i\<close>: the element at \<open>i\<close> is dropped, the
  rest keeps its order (nothing is dropped when \<open>i\<close> is past the end).\<close>

definition splice1 :: "int \<Rightarrow> 'a list \<Rightarrow> 'a list" where
  "splice1 i xs = take (nat i) xs @ drop (nat i + 1) xs"

subsection \<open>Operations\<close>

text \<open>Every operation returns its outcome (\<open>Inl\<close> the exception thrown, \<open>Inr\<close> the value
  returned) together with the state of the service when it returns or throws.\<close>

definition findAll :: "posts_state \<Rightarrow> post list" where
  "findAll s = posts s"

definition findOne :: "int \<Rightarrow> posts_state \<Rightarrow> http_exception + post" where
  "findOne i s =
     (case find_first (\<lambda>p. pid p = i) (posts s) of
        None \<Rightarrow> Inl (NotFoundException (''Post with ID '' @ show_number i @ '' not found''))
      | Some p \<Rightarrow> Inr p)"

text \<open>\<open>create\<close>: \<open>{ id: this.nextId++, ...createPostDto }\<close> is pushed. The DTO has no
  \<open>id\<close> field, so the spread does not touch \<open>id\<close>.\<close>

definition create ::
  "users_exists \<Rightarrow> CreatePostDto \<Rightarrow> posts_state \<Rightarrow> (http_exception + post) \<times> posts_state" where
  "create ex dto s =
     (if \<not> ex (c_userId dto)
      then (Inl (BadRequestException
              (''User with ID '' @ show_number (c_userId dto) @ '' not found'')), s)
      else
        (let newPost = \<lparr>pid = nextId s, userId = c_userId dto,
                        title = c_title dto, body = c_body dto\<rparr>;
             s1 = s\<lparr>nextId := nextId s + 1\<rparr>;
             s2 = s1\<lparr>posts := posts s1 @ [newPost]\<rparr>
         in (Inr newPost, s2)))"

text \<open>The truthiness of \<open>updatePostDto.userId\<close>: an absent field (\<open>undefined\<close>) and the
  number \<open>0\<close> are falsy, every other integer is truthy.\<close>

definition truthy_num :: "int option \<Rightarrow> bool" where
  "truthy_num v = (case v of None \<Rightarrow> False | Some n \<Rightarrow> n \<noteq> 0)"

text \<open>The object spread \<open>{ ...old, ...updatePostDto }\<close>: each field present in the DTO
  replaces the field of the stored post, \<open>id\<close> included.\<close>

definition spread :: "post \<Rightarrow> UpdatePostDto \<Rightarrow> post" where
  "spread old dto =
     \<lparr>pid = (case u_id dto of None \<Rightarrow> pid old | Some j \<Rightarrow> j),
      userId = (case u_userId dto of None \<Rightarrow> userId old | Some u \<Rightarrow> u),
      title = (case u_title dto of None \<Rightarrow> title old | Some t \<Rightarrow> t),
      body = (case u_body dto of None \<Rightarrow> body old | Some b \<Rightarrow> b)\<rparr>"

definition update ::
  "users_exists \<Rightarrow> int \<Rightarrow> UpdatePostDto \<Rightarrow> posts_state
     \<Rightarrow> (http_exception + post) \<times> posts_state" where
  "update ex i dto s =
     (let postIndex = findIndex (\<lambda>p. pid p = i) (posts s) in
      if postIndex = - 1
      then (Inl (NotFoundException (''Post with ID '' @ show_number i @ '' not found'')), s)
      else if truthy_num (u_userId dto) \<and> \<not> ex (the (u_userId dto))
      then (Inl (BadRequestException
              (''User with ID '' @ show_number (the (u_userId dto)) @ '' not found'')), s)
      else
        (let updatedPost = spread (posts s ! nat postIndex) dto
         in (Inr updatedPost, s\<lparr>posts := (posts s)[nat postIndex := updatedPost]\<rparr>)))"

definition remove :: "int \<Rightarrow> posts_state \<Rightarrow> (http_exception + unit) \<times> posts_state" where
  "remove i s =
     (let postIndex = findIndex (\<lambda>p. pid p = i) (posts s) in
      if postIndex = - 1
      then (Inl (NotFoundException (''Post with ID '' @ show_number i @ '' not found'')), s)
      else (Inr (), s\<lparr>posts := splice1 postIndex (posts s)\<rparr>))"

definition findByUserId :: "int \<Rightarrow> posts_state \<Rightarrow> post list" where
  "findByUserId u s = filter (\<lambda>p. userId p = u) (posts s)"

subsection \<open>Sequences of requests\<close>

text \<open>A request to the store, and the state the service is left in after handling it
  (an exception leaves the service running in the state it had when the exception was
  thrown). The user store may change between two requests, so every request comes with
  the \<open>exists\<close> lookup that is current when it is handled.\<close>

datatype request =
    Create CreatePostDto
  | Update int UpdatePostDto
  | Remove int

fun handle :: "users_exists \<Rightarrow> request \<Rightarrow> posts_state \<Rightarrow> posts_state" where
  "handle ex (Create dto) s = snd (create ex dto s)"
| "handle ex (Update i dto) s = snd (update ex i dto s)"
| "handle ex (Remove i) s = snd (remove i s)"

fun run :: "posts_state \<Rightarrow> (users_exists \<times> request) list \<Rightarrow> posts_state" where
  "run s [] = s"
| "run s (r # rs) = run (handle (fst r) (snd r) s) rs"

text \<open>A request keeps identifiers when it is not an update whose payload carries an
  \<open>id\<close> other than the one of the record it addresses.\<close>

fun keeps_id :: "request \<Rightarrow> bool" where
  "keeps_id (Update i dto) = (u_id dto = None \<or> u_id dto = Some i)"
| "keeps_id _ = True"

text \<open>The invariant of the store when identifiers are only assigned by \<open>create\<close>.\<close>

definition ids_ok :: "posts_state \<Rightarrow> bool" where
  "ids_ok s = (distinct (map pid (posts s)) \<and> (\<forall>p\<in>set (posts s). pid p < nextId s))"

text \<open>A user store used in the concrete evaluations below: the users \<open>1\<close> to \<open>10\<close> exist.\<close>

definition ten_users :: users_exists where
  "ten_users u = (1 \<le> u \<and> u \<le> 10)"

text \<open>Payloads used in the concrete evaluations below: an update carrying only an
  \<open>id\<close>, an update carrying only a \<open>userId\<close>, and a create payload for a given user.\<close>

definition only_id :: "int \<Rightarrow> UpdatePostDto" where
  "only_id j = \<lparr>u_id = Some j, u_userId = None, u_title = None, u_body = None\<rparr>"

definition only_userId :: "int \<Rightarrow> UpdatePostDto" where
  "only_userId u = \<lparr>u_id = None, u_userId = Some u, u_title = None, u_body = None\<rparr>"

definition hello_post :: "int \<Rightarrow> CreatePostDto" where
  "hello_post u = \<lparr>c_userId = u, c_title = ''Hello'', c_body = ''Hello, world''\<rparr>"

text \<open>Modelled from the spec: the exception filter (\<open>common/filters/http-exception.filter\<close>)
  that turns an exception into a response is not among the sources. The spec gives the
  status of each kind: not-found is 404, invalid input is 400.\<close>

fun getStatus :: "http_exception \<Rightarrow> nat" where
  "getStatus (NotFoundException m) = 404"
| "getStatus (BadRequestException m) = 400"


section \<open>JSON values\<close>

text \<open>A decoded JSON value: what \<open>JSON.parse\<close> and \<open>response.json()\<close> return and what a
  request body holds. Numbers are modelled by the integers (identifiers and statuses;
  the client only tests a number for being zero); an object is the list of its
  properties in order, each key once. A property that is absent reads as \<open>undefined\<close>, modelled by
  \<open>None\<close>.\<close>

datatype json =
    JNull
  | JBool bool
  | JNum int
  | JStr string
  | JArr "json list"
  | JObj "(string \<times> json) list"

section \<open>Validation of request payloads (the DTO classes)\<close>

text \<open>The decorators of class-validator that the DTO classes use. \<open>MinLength\<close> carries
  its bound and the message declared with it.\<close>

datatype decorator =
    IsNumber
  | IsString
  | IsNotEmpty
  | MinLength nat string
  | IsOptional

text \<open>What each decorator accepts, for the value of a property (\<open>None\<close> when the
  property is absent): \<open>@IsNumber()\<close> a number, \<open>@IsString()\<close> a string,
  \<open>@IsNotEmpty()\<close> anything but the empty string, \<open>null\<close> and \<open>undefined\<close>,
  \<open>@MinLength(n)\<close> a string of at least \<open>n\<close> characters. \<open>@IsOptional()\<close> is no check
  of its own: it switches the other checks off, see \<open>property_errors\<close>.\<close>

fun holds :: "decorator \<Rightarrow> json option \<Rightarrow> bool" where
  "holds IsNumber v = (case v of Some (JNum n) \<Rightarrow> True | _ \<Rightarrow> False)"
| "holds IsString v = (case v of Some (JStr t) \<Rightarrow> True | _ \<Rightarrow> False)"
| "holds IsNotEmpty v = (v \<noteq> None \<and> v \<noteq> Some JNull \<and> v \<noteq> Some (JStr []))"
| "holds (MinLength n m) v = (case v of Some (JStr t) \<Rightarrow> n \<le> length t | _ \<Rightarrow> False)"
| "holds IsOptional v = True"

text \<open>A DTO class is the list of its decorated properties.\<close>

type_synonym dto_class = "(string \<times> decorator list) list"

definition CreatePostDto_class :: dto_class where
  "CreatePostDto_class =
     [(''userId'', [IsNumber, IsNotEmpty]),
      (''title'', [IsString, IsNotEmpty, MinLength 5 ''Title must be at least 5 characters long'']),
      (''body'', [IsString, IsNotEmpty, MinLength 10 ''Body must be at least 10 characters long''])]"

text \<open>\<open>PartialType(C)\<close>: the properties of \<open>C\<close> with their decorators, each made optional.\<close>

definition PartialType :: "dto_class \<Rightarrow> dto_class" where
  "PartialType c = map (\<lambda>fd. (fst fd, snd fd @ [IsOptional])) c"

definition UpdatePostDto_class :: dto_class where
  "UpdatePostDto_class = PartialType CreatePostDto_class @ [(''id'', [IsNumber, IsOptional])]"

text \<open>The values on which \<open>@IsOptional()\<close> switches the checks off: \<open>undefined\<close> and
  \<open>null\<close>.\<close>

definition absent :: "json option \<Rightarrow> bool" where
  "absent v = (v = None \<or> v = Some JNull)"

text \<open>The decorators of one property that the payload violates. On a property marked
  \<open>@IsOptional()\<close> whose value is absent or \<open>null\<close>, nothing is checked.\<close>

definition property_errors ::
  "(string \<times> json) list \<Rightarrow> string \<times> decorator list \<Rightarrow> (string \<times> decorator) list" where
  "property_errors payload fd =
     (let v = map_of payload (fst fd) in
      if IsOptional \<in> set (snd fd) \<and> absent v then []
      else map (Pair (fst fd)) (filter (\<lambda>d. \<not> holds d v) (snd fd)))"

text \<open>The global \<open>ValidationPipe\<close> runs with \<open>whitelist\<close> and \<open>forbidNonWhitelisted\<close>:
  a property that the class does not declare is an error.\<close>

definition unknown_properties :: "dto_class \<Rightarrow> (string \<times> json) list \<Rightarrow> string list" where
  "unknown_properties c payload = filter (\<lambda>k. k \<notin> set (map fst c)) (map fst payload)"

definition accepted :: "dto_class \<Rightarrow> (string \<times> json) list \<Rightarrow> bool" where
  "accepted c payload =
     (unknown_properties c payload = [] \<and> concat (map (property_errors payload) c) = [])"

section \<open>The HTTP client (ApiClient)\<close>

subsection \<open>The runtime: truthiness, typeof, property access\<close>

fun truthy :: "json \<Rightarrow> bool" where
  "truthy JNull = False"
| "truthy (JBool b) = b"
| "truthy (JNum n) = (n \<noteq> 0)"
| "truthy (JStr t) = (t \<noteq> [])"
| "truthy (JArr xs) = True"
| "truthy (JObj kvs) = True"

fun typeof :: "json \<Rightarrow> string" where
  "typeof JNull = ''object''"
| "typeof (JBool b) = ''boolean''"
| "typeof (JNum n) = ''number''"
| "typeof (JStr t) = ''string''"
| "typeof (JArr xs) = ''object''"
| "typeof (JObj kvs) = ''object''"

text \<open>The property read \<open>j.k\<close> for the names the client reads (\<open>data\<close>, \<open>message\<close>,
  \<open>details\<close>: none of them built in) on a \<open>j\<close> other than \<open>null\<close>: the property of an
  object, \<open>undefined\<close> on every other value.\<close>

fun member_of :: "string \<Rightarrow> json \<Rightarrow> json option" where
  "member_of k (JObj kvs) = map_of kvs k"
| "member_of k j = None"

text \<open>\<open>'data' in j\<close>, evaluated only where \<open>typeof j\<close> is \<open>object\<close> and \<open>j\<close> is not
  \<open>null\<close>: an array has its indices and \<open>length\<close>, never \<open>data\<close>.\<close>

definition has_data :: "json \<Rightarrow> bool" where
  "has_data j = (member_of ''data'' j \<noteq> None)"

text \<open>\<open>a || b\<close> for a property read \<open>a\<close>.\<close>

definition or_else :: "json option \<Rightarrow> json \<Rightarrow> json" where
  "or_else a b = (case a of None \<Rightarrow> b | Some j \<Rightarrow> if truthy j then j else b)"

subsection \<open>Responses and errors\<close>

text \<open>A response as the client reads it: the status, the status text and the text of
  the body. \<open>response.ok\<close> is true for the statuses 200 to 299.\<close>

record response =
  status :: nat
  statusText :: string
  text_of :: string

definition ok :: "response \<Rightarrow> bool" where
  "ok r = (200 \<le> status r \<and> status r \<le> 299)"

text \<open>What \<open>fetch\<close> settles to: it rejects with an \<open>Error\<close> (carrying a message) when no
  response arrives, and resolves to the response otherwise, whatever its status.\<close>

datatype fetch_result =
    Rejected string
  | Responded response

text \<open>The normalized error \<open>{ status, message, details }\<close>. The message and the details
  are whatever the error body held under these names, so they are JSON values.\<close>

record ApiError =
  e_status :: nat
  e_message :: json
  e_details :: json

text \<open>What the \<open>catch\<close> of a wrapper may receive: an object with a \<open>status\<close> property
  (the record thrown after \<open>handleHttpError\<close>), an \<open>Error\<close> without one, anything else.\<close>

datatype thrown =
    WithStatus ApiError
  | ErrorObject string
  | OtherValue

text \<open>\<open>JSON.parse\<close> and \<open>response.json()\<close> belong to the platform: the decoder is a
  parameter, giving the decoded value or the message of the \<open>SyntaxError\<close> it throws.\<close>

type_synonym decoder = "string \<Rightarrow> string + json"

subsection \<open>Error normalization\<close>

definition handleHttpError :: "decoder \<Rightarrow> response \<Rightarrow> ApiError" where
  "handleHttpError parse r =
     (let message = ''HTTP Error: '' @ decimal (status r);
          details = [];
          caught = \<lparr>e_status = status r,
                    e_message = JStr (if statusText r \<noteq> [] then statusText r else message),
                    e_details = JStr details\<rparr>
      in case parse (text_of r) of
           Inl syntax_error \<Rightarrow> caught
         | Inr errorBody \<Rightarrow>
             if errorBody = JNull then caught
             else \<lparr>e_status = status r,
                   e_message = or_else (member_of ''message'' errorBody) (JStr message),
                   e_details = or_else (member_of ''details'' errorBody) (JStr [])\<rparr>)"

fun handleRequestError :: "thrown \<Rightarrow> ApiError" where
  "handleRequestError (WithStatus e) = e"
| "handleRequestError (ErrorObject m) =
     \<lparr>e_status = 0,
      e_message = JStr (if m \<noteq> [] then m else ''Network error occurred''),
      e_details = JStr ''Request failed due to network issues''\<rparr>"
| "handleRequestError OtherValue =
     \<lparr>e_status = 0,
      e_message = JStr ''Unknown error occurred'',
      e_details = JStr ''An unexpected error happened during the request''\<rparr>"

subsection \<open>The wrappers\<close>

text \<open>The test and the unwrapping that every wrapper applies to the decoded body.\<close>

definition unwrap :: "json \<Rightarrow> json" where
  "unwrap jsonResponse =
     (if truthy jsonResponse \<and> typeof jsonResponse = ''object'' \<and> has_data jsonResponse
      then the (member_of ''data'' jsonResponse)
      else jsonResponse)"

text \<open>Each wrapper is given what its \<open>fetch\<close> settled to; the request itself (method,
  headers, serialized body) only reaches the server. The result is \<open>Inl\<close> the error the
  promise rejects with, \<open>Inr\<close> the value it resolves to.\<close>

definition api_get :: "decoder \<Rightarrow> fetch_result \<Rightarrow> ApiError + json" where
  "api_get parse fr =
     (case fr of
        Rejected m \<Rightarrow> Inl (handleRequestError (ErrorObject m))
      | Responded r \<Rightarrow>
          if \<not> ok r then Inl (handleRequestError (WithStatus (handleHttpError parse r)))
          else (case parse (text_of r) of
                  Inl m \<Rightarrow> Inl (handleRequestError (ErrorObject m))
                | Inr jsonResponse \<Rightarrow> Inr (unwrap jsonResponse)))"

definition api_post :: "decoder \<Rightarrow> fetch_result \<Rightarrow> ApiError + json" where
  "api_post parse fr =
     (case fr of
        Rejected m \<Rightarrow> Inl (handleRequestError (ErrorObject m))
      | Responded r \<Rightarrow>
          if \<not> ok r then Inl (handleRequestError (WithStatus (handleHttpError parse r)))
          else (case parse (text_of r) of
                  Inl m \<Rightarrow> Inl (handleRequestError (ErrorObject m))
                | Inr jsonResponse \<Rightarrow> Inr (unwrap jsonResponse)))"

definition api_put :: "decoder \<Rightarrow> fetch_result \<Rightarrow> ApiError + json" where
  "api_put parse fr =
     (case fr of
        Rejected m \<Rightarrow> Inl (handleRequestError (ErrorObject m))
      | Responded r \<Rightarrow>
          if \<not> ok r then Inl (handleRequestError (WithStatus (handleHttpError parse r)))
          else (case parse (text_of r) of
                  Inl m \<Rightarrow> Inl (handleRequestError (ErrorObject m))
                | Inr jsonResponse \<Rightarrow> Inr (unwrap jsonResponse)))"

definition api_patch :: "decoder \<Rightarrow> fetch_result \<Rightarrow> ApiError + json" where
  "api_patch parse fr =
     (case fr of
        Rejected m \<Rightarrow> Inl (handleRequestError (ErrorObject m))
      | Responded r \<Rightarrow>
          if \<not> ok r then Inl (handleRequestError (WithStatus (handleHttpError parse r)))
          else (case parse (text_of r) of
                  Inl m \<Rightarrow> Inl (handleRequestError (ErrorObject m))
                | Inr jsonResponse \<Rightarrow> Inr (unwrap jsonResponse)))"

text \<open>\<open>delete\<close> reads the text first and answers \<open>{}\<close> to an empty one.\<close>

definition api_delete :: "decoder \<Rightarrow> fetch_result \<Rightarrow> ApiError + json" where
  "api_delete parse fr =
     (case fr of
        Rejected m \<Rightarrow> Inl (handleRequestError (ErrorObject m))
      | Responded r \<Rightarrow>
          if \<not> ok r then Inl (handleRequestError (WithStatus (handleHttpError parse r)))
          else if text_of r = [] then Inr (JObj [])
          else (case parse (text_of r) of
                  Inl m \<Rightarrow> Inl (handleRequestError (ErrorObject m))
                | Inr jsonResponse \<Rightarrow> Inr (unwrap jsonResponse)))"

text \<open>A decoder used in the concrete evaluations below: it knows four texts and rejects
  every other one.\<close>

definition sample_parse :: decoder where
  \<open>sample_parse t =
     (if t = ''{"data":7}'' then Inr (JObj [(''data'', JNum 7)])
      else if t = ''{"id":7}'' then Inr (JObj [(''id'', JNum 7)])
      else if t = ''[]'' then Inr (JArr [])
      else if t = ''null'' then Inr JNull
      else Inl ''Unexpected token'')\<close>

text \<open>The violations that the validation of a payload against a class reports for the
  property named \<open>f\<close>.\<close>

definition errors_on ::
  "dto_class \<Rightarrow> (string \<times> json) list \<Rightarrow> string \<Rightarrow> (string \<times> decorator) list" where
  "errors_on c payload f =
     concat (map (property_errors payload) (filter (\<lambda>fd. fst fd = f) c))"

section \<open>Facts about the array primitives\<close>

lemma findIndex_ge: "- 1 \<le> findIndex P xs"
  by (induction xs) (auto simp: Let_def)

lemma findIndex_none: "findIndex P xs = - 1 \<longleftrightarrow> (\<forall>x\<in>set xs. \<not> P x)"
proof (induction xs)
  case Nil then show ?case by simp
next
  case (Cons x xs)
  have "- 1 \<le> findIndex P xs" by (rule findIndex_ge)
  with Cons show ?case by (auto simp: Let_def)
qed

lemma findIndex_some:
  "findIndex P xs \<noteq> - 1 \<Longrightarrow> findIndex P xs = int (length (takeWhile (\<lambda>x. \<not> P x) xs))"
proof (induction xs)
  case Nil then show ?case by simp
next
  case (Cons x xs)
  have "- 1 \<le> findIndex P xs" by (rule findIndex_ge)
  with Cons show ?case by (auto simp: Let_def split: if_splits)
qed

lemma findIndex_found:
  "findIndex P xs \<noteq> - 1 \<Longrightarrow>
     nat (findIndex P xs) < length xs \<and> P (xs ! nat (findIndex P xs))"
proof (induction xs)
  case Nil
  then show ?case by simp
next
  case (Cons x xs)
  have g: "- 1 \<le> findIndex P xs" by (rule findIndex_ge)
  show ?case
  proof (cases "P x")
    case True
    then show ?thesis by simp
  next
    case False
    with Cons.prems have ne: "findIndex P xs \<noteq> - 1" by (auto simp: Let_def)
    with g have "nat (findIndex P xs + 1) = Suc (nat (findIndex P xs))" by simp
    with False ne Cons.IH [OF ne] show ?thesis by (simp add: Let_def)
  qed
qed

lemma find_first_none: "find_first P xs = None \<longleftrightarrow> (\<forall>x\<in>set xs. \<not> P x)"
  by (induction xs) auto

lemma find_first_append:
  "find_first P (xs @ ys) = (case find_first P xs of None \<Rightarrow> find_first P ys | Some x \<Rightarrow> Some x)"
  by (induction xs) auto

lemma splice1_first:
  "splice1 (int (length (takeWhile Q xs))) xs = takeWhile Q xs @ tl (dropWhile Q xs)"
proof -
  have "take (length (takeWhile Q xs)) xs = takeWhile Q xs"
    by (induction xs) auto
  moreover have "drop (length (takeWhile Q xs) + 1) xs = tl (dropWhile Q xs)"
    by (induction xs) auto
  ultimately show ?thesis by (simp add: splice1_def)
qed

lemma distinct_first_is_filter:
  "distinct (map f xs) \<Longrightarrow>
   takeWhile (\<lambda>p. f p \<noteq> i) xs @ tl (dropWhile (\<lambda>p. f p \<noteq> i) xs) = filter (\<lambda>p. f p \<noteq> i) xs"
proof (induction xs)
  case Nil then show ?case by simp
next
  case (Cons x xs)
  show ?case
  proof (cases "f x = i")
    case True
    from Cons.prems have "f x \<notin> f ` set xs" by simp
    then have "\<forall>p\<in>set xs. f p \<noteq> f x" by (metis imageI)
    with True have "\<forall>p\<in>set xs. f p \<noteq> i" by simp
    then have "filter (\<lambda>p. f p \<noteq> i) xs = xs" by (simp add: filter_id_conv)
    with True show ?thesis by simp
  next
    case False
    with Cons show ?thesis by simp
  qed
qed

section \<open>The post store: auxiliary facts\<close>

lemmas seed_defs = seeded_def post1_def post2_def post3_def post4_def post5_def
      post6_def post7_def post8_def post9_def post10_def

lemma seeded_pids: "map pid (posts seeded) = [1, 2, 3, 4, 5, 6, 7, 8, 9, 10]"
  by (simp add: seeded_def post1_def post2_def post3_def post4_def post5_def
      post6_def post7_def post8_def post9_def post10_def)

lemma ids_ok_alt:
  "ids_ok s \<longleftrightarrow> distinct (map pid (posts s)) \<and> (\<forall>j\<in>set (map pid (posts s)). j < nextId s)"
  by (auto simp: ids_ok_def)

lemma ids_ok_seeded: "ids_ok seeded"
proof -
  have "nextId seeded = 11" by (simp add: seeded_def)
  then show ?thesis unfolding ids_ok_alt seeded_pids by simp
qed

lemma create_result:
  "ex (c_userId dto) \<Longrightarrow>
   create ex dto s =
     (Inr \<lparr>pid = nextId s, userId = c_userId dto, title = c_title dto, body = c_body dto\<rparr>,
      s\<lparr>nextId := nextId s + 1,
        posts := posts s @ [\<lparr>pid = nextId s, userId = c_userId dto, title = c_title dto,
                            body = c_body dto\<rparr>]\<rparr>)"
  by (simp add: create_def Let_def)

lemma create_rejected:
  "\<not> ex (c_userId dto) \<Longrightarrow>
   create ex dto s =
     (Inl (BadRequestException (''User with ID '' @ show_number (c_userId dto) @ '' not found'')), s)"
  by (simp add: create_def)

lemma remove_absent:
  "i \<notin> pid ` set (posts s) \<Longrightarrow>
   remove i s = (Inl (NotFoundException (''Post with ID '' @ show_number i @ '' not found'')), s)"
  by (auto simp: remove_def Let_def findIndex_none)

lemma remove_present:
  assumes "i \<in> pid ` set (posts s)"
  shows "remove i s = (Inr (), s\<lparr>posts := takeWhile (\<lambda>p. pid p \<noteq> i) (posts s)
                                   @ tl (dropWhile (\<lambda>p. pid p \<noteq> i) (posts s))\<rparr>)"
proof -
  from assms have ne: "findIndex (\<lambda>p. pid p = i) (posts s) \<noteq> - 1"
    by (auto simp: findIndex_none)
  from findIndex_some [OF ne] ne show ?thesis
    by (simp add: remove_def Let_def splice1_first)
qed

text \<open>
  Identifiers stay distinct and below the counter along every sequence of requests in
  which no update carries an \<open>id\<close> other than the one it addresses: such an update is
  the only request that can break this.
\<close>

lemma create_ids_ok: "ids_ok s \<Longrightarrow> ids_ok (snd (create ex dto s))"
proof (cases "ex (c_userId dto)")
  case True
  assume "ids_ok s"
  with create_result [of ex dto s] True show ?thesis unfolding ids_ok_alt by auto
next
  case False
  assume "ids_ok s"
  with create_rejected [of ex dto s] False show ?thesis by simp
qed

lemma update_keeps_pids:
  assumes "u_id dto = None \<or> u_id dto = Some i"
  shows "map pid (posts (snd (update ex i dto s))) = map pid (posts s)
         \<and> nextId (snd (update ex i dto s)) = nextId s"
proof (cases "findIndex (\<lambda>p. pid p = i) (posts s) = - 1")
  case True
  then show ?thesis by (simp add: update_def)
next
  case False
  let ?k = "nat (findIndex (\<lambda>p. pid p = i) (posts s))"
  from findIndex_found [OF False]
  have k: "?k < length (posts s)" and p: "pid (posts s ! ?k) = i" by simp_all
  from assms p have same: "pid (spread (posts s ! ?k) dto) = pid (posts s ! ?k)"
    by (auto simp: spread_def)
  have "(map pid (posts s))[?k := pid (posts s ! ?k)] = map pid (posts s)"
    using k by (simp add: list_update_same_conv)
  with same have "map pid ((posts s)[?k := spread (posts s ! ?k) dto]) = map pid (posts s)"
    by (simp add: map_update)
  then show ?thesis by (simp add: update_def Let_def)
qed

lemma remove_ids_ok: "ids_ok s \<Longrightarrow> ids_ok (snd (remove i s))"
proof (cases "i \<in> pid ` set (posts s)")
  case False
  assume "ids_ok s"
  with False show ?thesis by (simp add: remove_absent)
next
  case True
  assume ok: "ids_ok s"
  then have d: "distinct (map pid (posts s))" by (simp add: ids_ok_def)
  have "posts (snd (remove i s)) = filter (\<lambda>p. pid p \<noteq> i) (posts s)"
    using distinct_first_is_filter [OF d, of i] by (simp add: remove_present [OF True])
  moreover have "nextId (snd (remove i s)) = nextId s"
    by (simp add: remove_present [OF True])
  ultimately show ?thesis using ok by (auto simp: ids_ok_def distinct_map_filter)
qed

lemma handle_ids_ok: "ids_ok s \<Longrightarrow> keeps_id r \<Longrightarrow> ids_ok (handle ex r s)"
proof (cases r)
  case (Create dto)
  assume "ids_ok s"
  with Create show ?thesis by (simp add: create_ids_ok)
next
  case (Update i dto)
  assume "ids_ok s" "keeps_id r"
  with Update update_keeps_pids [of dto i ex s] show ?thesis by (simp add: ids_ok_alt)
next
  case (Remove i)
  assume "ids_ok s"
  with Remove show ?thesis by (simp add: remove_ids_ok)
qed

lemma run_ids_ok: "ids_ok s \<Longrightarrow> \<forall>r\<in>set rs. keeps_id (snd r) \<Longrightarrow> ids_ok (run s rs)"
proof (induction rs arbitrary: s)
  case Nil
  then show ?case by simp
next
  case (Cons r rs)
  from Cons.prems have "ids_ok (handle (fst r) (snd r) s)" by (simp add: handle_ids_ok)
  with Cons show ?case by simp
qed

section \<open>The post store: the claims\<close>

subsection \<open>C1: identifiers\<close>

text \<open>
  \<^bold>\<open>C1\<close>: \<open>create\<close> takes the identifier from the counter and \<open>CreatePostDto\<close> has no
  \<open>id\<close>, but \<open>update\<close> spreads the payload over the stored post without comparing the
  payload's \<open>id\<close> with the identifier it was called with. On the seeded state the update
  of post 1 with the payload \<open>{ id: 2 }\<close> succeeds, returns post 1 under the identifier
  2 and leaves two posts with the identifier 2 in the list.
\<close>

theorem update_duplicates_post_id:
  "fst (update ten_users 1 (only_id 2) seeded) = Inr (post1\<lparr>pid := 2\<rparr>)
   \<and> map pid (posts (snd (update ten_users 1 (only_id 2) seeded)))
       = [2, 2, 3, 4, 5, 6, 7, 8, 9, 10]
   \<and> \<not> distinct (map pid (posts (snd (update ten_users 1 (only_id 2) seeded))))
   \<and> nextId (snd (update ten_users 1 (only_id 2) seeded)) = 11"
  by (simp add: update_def Let_def seed_defs spread_def only_id_def truthy_num_def)

subsection \<open>C2: the referenced user on update\<close>

text \<open>
  \<^bold>\<open>C2\<close>: the guard of \<open>update\<close> is \<open>updatePostDto.userId && !exists(...)\<close>, and the
  number \<open>0\<close> is falsy. With the users 1 to 10, the update of post 1 with the payload
  \<open>{ userId: 0 }\<close> is not refused although no user 0 exists: it succeeds and stores the
  post with \<open>userId\<close> 0, where \<open>create\<close> refuses a payload for the same user.
\<close>

theorem update_skips_user_check_for_zero:
  "\<not> ten_users 0
   \<and> update ten_users 1 (only_userId 0) seeded
       = (Inr (post1\<lparr>userId := 0\<rparr>), seeded\<lparr>posts := (posts seeded)[0 := post1\<lparr>userId := 0\<rparr>]\<rparr>)
   \<and> create ten_users (hello_post 0) seeded
       = (Inl (BadRequestException ''User with ID 0 not found''), seeded)"
proof -
  have z: "show_number 0 = ''0''"
    by (simp add: show_number_def decimal.simps digit_char_def)
  have a: "\<not> ten_users 0" by (simp add: ten_users_def)
  have b: "update ten_users 1 (only_userId 0) seeded
      = (Inr (post1\<lparr>userId := 0\<rparr>), seeded\<lparr>posts := (posts seeded)[0 := post1\<lparr>userId := 0\<rparr>]\<rparr>)"
    by (simp add: update_def Let_def seed_defs spread_def only_userId_def truthy_num_def)
  have c: "create ten_users (hello_post 0) seeded
      = (Inl (BadRequestException ''User with ID 0 not found''), seeded)"
    using z by (simp add: create_def ten_users_def hello_post_def)
  from a b c show ?thesis by blast
qed

subsection \<open>C3: create with an absent user\<close>

text \<open>
  \<^bold>\<open>C3\<close>: whenever the \<open>userId\<close> of a create payload names no existing user, \<open>create\<close>
  throws the bad-request exception (status 400) with the message naming that user, and
  it never throws the not-found exception.
\<close>

theorem create_absent_user_is_bad_request:
  "\<not> ex (c_userId dto) \<Longrightarrow>
     fst (create ex dto s)
       = Inl (BadRequestException (''User with ID '' @ show_number (c_userId dto) @ '' not found''))
     \<and> getStatus (BadRequestException (''User with ID '' @ show_number (c_userId dto) @ '' not found'')) = 400
     \<and> fst (create ex dto s) \<noteq> Inl (NotFoundException m)"
  by (simp add: create_def)

text \<open>
  An instance of C3: a create payload for the user 99 on the seeded state.
\<close>

theorem create_absent_user_is_bad_request_witness:
  "\<not> ten_users (c_userId (hello_post 99))
   \<and> fst (create ten_users (hello_post 99) seeded)
       = Inl (BadRequestException ''User with ID 99 not found'')"
proof -
  have h: "\<not> ten_users (c_userId (hello_post 99))"
    by (simp add: ten_users_def hello_post_def)
  have "show_number (c_userId (hello_post 99)) = ''99''"
    by (simp add: hello_post_def show_number_def decimal.simps digit_char_def)
  with create_absent_user_is_bad_request [of ten_users "hello_post 99" seeded, OF h] h show ?thesis by simp
qed

subsection \<open>C5: the posts of a user\<close>

text \<open>
  \<^bold>\<open>C5\<close>: \<open>findByUserId\<close> returns exactly the posts of the list whose \<open>userId\<close> is the
  argument: the same elements, each as often as in the list and none of the others, in
  the order of the list.
\<close>

theorem findByUserId_exact:
  "set (findByUserId u s) = {p \<in> set (posts s). userId p = u}
   \<and> subseq (findByUserId u s) (posts s)
   \<and> count_list (findByUserId u s) p = (if userId p = u then count_list (posts s) p else 0)"
proof (intro conjI)
  show "set (findByUserId u s) = {p \<in> set (posts s). userId p = u}"
    by (auto simp: findByUserId_def)
  show "subseq (findByUserId u s) (posts s)"
    by (simp add: findByUserId_def)
  have "count_list (filter (\<lambda>q. userId q = u) xs) p
          = (if userId p = u then count_list xs p else 0)" for xs
    by (induction xs) auto
  then show "count_list (findByUserId u s) p = (if userId p = u then count_list (posts s) p else 0)"
    by (simp add: findByUserId_def)
qed

subsection \<open>C6: remove\<close>

text \<open>
  \<^bold>\<open>C6\<close>: after the update of post 1 with the payload \<open>{ id: 2 }\<close> (the defect of C1),
  \<open>remove(2)\<close> succeeds, drops the first of the two posts with the identifier 2, and
  \<open>findAll\<close> still holds a post with the identifier 2.
\<close>

theorem remove_leaves_duplicate_id:
  "2 \<in> pid ` set (posts (snd (update ten_users 1 (only_id 2) seeded)))
   \<and> fst (remove 2 (snd (update ten_users 1 (only_id 2) seeded))) = Inr ()
   \<and> map pid (findAll (snd (remove 2 (snd (update ten_users 1 (only_id 2) seeded)))))
       = [2, 3, 4, 5, 6, 7, 8, 9, 10]
   \<and> 2 \<in> pid ` set (findAll (snd (remove 2 (snd (update ten_users 1 (only_id 2) seeded)))))"
  by (simp add: update_def remove_def findAll_def Let_def seed_defs spread_def only_id_def
      truthy_num_def splice1_def)

subsection \<open>C7: create, then findOne\<close>

text \<open>
  \<^bold>\<open>C7\<close>: after the update of post 1 with the payload \<open>{ id: 11 }\<close> (the defect of C1),
  \<open>create\<close> returns a new post with the identifier 11, and \<open>findOne(11)\<close> returns the
  older post, which differs from the one created.
\<close>

theorem findOne_returns_older_post:
  "ten_users (c_userId (hello_post 3))
   \<and> fst (create ten_users (hello_post 3) (snd (update ten_users 1 (only_id 11) seeded)))
       = Inr \<lparr>pid = 11, userId = 3, title = ''Hello'', body = ''Hello, world''\<rparr>
   \<and> findOne 11 (snd (create ten_users (hello_post 3)
                        (snd (update ten_users 1 (only_id 11) seeded))))
       = Inr (post1\<lparr>pid := 11\<rparr>)
   \<and> post1\<lparr>pid := 11\<rparr> \<noteq> \<lparr>pid = 11, userId = 3, title = ''Hello'', body = ''Hello, world''\<rparr>"
  by (simp add: ten_users_def hello_post_def create_def update_def findOne_def Let_def seed_defs
      spread_def only_id_def truthy_num_def)

subsection \<open>C10: failure atomicity\<close>

text \<open>
  \<^bold>\<open>C10\<close>: whenever \<open>create\<close>, \<open>update\<close> or \<open>remove\<close> throws, the list of posts and the
  counter are what they were before the call.
\<close>

theorem failed_operation_keeps_state:
  "(fst (create ex dto s) = Inl e \<longrightarrow> snd (create ex dto s) = s)
   \<and> (fst (update ex i udto s) = Inl e \<longrightarrow> snd (update ex i udto s) = s)
   \<and> (fst (remove i s) = Inl e \<longrightarrow> snd (remove i s) = s)"
  by (simp add: create_def update_def remove_def Let_def)

text \<open>
  An instance of C10: the four ways to fail on the seeded state.
\<close>

theorem failed_operation_keeps_state_witness:
  "fst (create ten_users (hello_post 99) seeded) = Inl (BadRequestException ''User with ID 99 not found'')
   \<and> snd (create ten_users (hello_post 99) seeded) = seeded
   \<and> fst (update ten_users 1 (only_userId 99) seeded) = Inl (BadRequestException ''User with ID 99 not found'')
   \<and> snd (update ten_users 1 (only_userId 99) seeded) = seeded
   \<and> fst (update ten_users 42 (only_userId 1) seeded) = Inl (NotFoundException ''Post with ID 42 not found'')
   \<and> snd (update ten_users 42 (only_userId 1) seeded) = seeded
   \<and> fst (remove 42 seeded) = Inl (NotFoundException ''Post with ID 42 not found'')
   \<and> snd (remove 42 seeded) = seeded"
proof -
  have s: "show_number 42 = ''42''" "show_number 99 = ''99''"
    by (simp_all add: show_number_def decimal.simps digit_char_def)
  have p: "pid ` set (posts seeded) = set (map pid (posts seeded))" by simp
  have b: "42 \<notin> pid ` set (posts seeded)" unfolding p seeded_pids by simp
  have c: "fst (create ten_users (hello_post 99) seeded) = Inl (BadRequestException ''User with ID 99 not found'')"
    using s by (simp add: create_def ten_users_def hello_post_def)
  have r: "fst (remove 42 seeded) = Inl (NotFoundException ''Post with ID 42 not found'')"
    using s remove_absent [OF b] by simp
  have u1: "fst (update ten_users 1 (only_userId 99) seeded) = Inl (BadRequestException ''User with ID 99 not found'')"
    using s by (simp add: update_def Let_def seed_defs ten_users_def only_userId_def truthy_num_def)
  have u2: "fst (update ten_users 42 (only_userId 1) seeded) = Inl (NotFoundException ''Post with ID 42 not found'')"
    using s by (simp add: update_def Let_def seed_defs)
  from failed_operation_keeps_state [of ten_users "hello_post 99" seeded "BadRequestException ''User with ID 99 not found''"] c
  have c': "snd (create ten_users (hello_post 99) seeded) = seeded" by blast
  from failed_operation_keeps_state [of ten_users _ seeded "BadRequestException ''User with ID 99 not found''" 1 "only_userId 99"] u1
  have u1': "snd (update ten_users 1 (only_userId 99) seeded) = seeded" by blast
  from failed_operation_keeps_state [of ten_users _ seeded "NotFoundException ''Post with ID 42 not found''" 42 "only_userId 1"] u2
  have u2': "snd (update ten_users 42 (only_userId 1) seeded) = seeded" by blast
  from failed_operation_keeps_state [of _ _ seeded "NotFoundException ''Post with ID 42 not found''" 42] r
  have r': "snd (remove 42 seeded) = seeded" by blast
  from c c' u1 u1' u2 u2' r r' show ?thesis by blast
qed

section \<open>Validation: auxiliary facts\<close>

lemmas dto_defs = CreatePostDto_class_def UpdatePostDto_class_def PartialType_def

lemma unknown_none:
  "unknown_properties c payload = [] \<longleftrightarrow> set (map fst payload) \<subseteq> set (map fst c)"
  by (auto simp: unknown_properties_def filter_empty_conv)

lemma holds_all_string:
  "filter (\<lambda>d. \<not> holds d v) [IsString, IsNotEmpty, MinLength n m] = []
     \<longleftrightarrow> (\<exists>t. v = Some (JStr t) \<and> n \<le> length t \<and> t \<noteq> [])"
  by (auto split: option.splits json.splits)

lemma holds_all_number:
  "filter (\<lambda>d. \<not> holds d v) [IsNumber, IsNotEmpty] = [] \<longleftrightarrow> (\<exists>k. v = Some (JNum k))"
  by (auto split: option.splits json.splits)

lemma accepted_create_iff:
  "accepted CreatePostDto_class payload \<longleftrightarrow>
     set (map fst payload) \<subseteq> {''userId'', ''title'', ''body''}
     \<and> (\<exists>k. map_of payload ''userId'' = Some (JNum k))
     \<and> (\<exists>t. map_of payload ''title'' = Some (JStr t) \<and> 5 \<le> length t)
     \<and> (\<exists>b. map_of payload ''body'' = Some (JStr b) \<and> 10 \<le> length b)"
proof -
  have "accepted CreatePostDto_class payload \<longleftrightarrow>
     set (map fst payload) \<subseteq> {''userId'', ''title'', ''body''}
     \<and> filter (\<lambda>d. \<not> holds d (map_of payload ''userId'')) [IsNumber, IsNotEmpty] = []
     \<and> filter (\<lambda>d. \<not> holds d (map_of payload ''title''))
          [IsString, IsNotEmpty, MinLength 5 ''Title must be at least 5 characters long''] = []
     \<and> filter (\<lambda>d. \<not> holds d (map_of payload ''body''))
          [IsString, IsNotEmpty, MinLength 10 ''Body must be at least 10 characters long''] = []"
    unfolding accepted_def unknown_none
    by (simp add: dto_defs property_errors_def Let_def del: filter.simps holds.simps) 
  also have "\<dots> \<longleftrightarrow>
     set (map fst payload) \<subseteq> {''userId'', ''title'', ''body''}
     \<and> (\<exists>k. map_of payload ''userId'' = Some (JNum k))
     \<and> (\<exists>t. map_of payload ''title'' = Some (JStr t) \<and> 5 \<le> length t)
     \<and> (\<exists>b. map_of payload ''body'' = Some (JStr b) \<and> 10 \<le> length b)"
    unfolding holds_all_string holds_all_number by auto
  finally show ?thesis .
qed

lemma opt_string_errors:
  "0 < n \<Longrightarrow>
   property_errors payload (f, [IsString, IsNotEmpty, MinLength n m, IsOptional]) = []
     \<longleftrightarrow> absent (map_of payload f)
         \<or> (\<exists>t. map_of payload f = Some (JStr t) \<and> n \<le> length t)"
  by (auto simp: property_errors_def Let_def absent_def split: option.splits json.splits)

lemma opt_number_errors:
  "property_errors payload (f, [IsNumber, IsNotEmpty, IsOptional]) = []
     \<longleftrightarrow> absent (map_of payload f) \<or> (\<exists>k. map_of payload f = Some (JNum k))"
  by (auto simp: property_errors_def Let_def absent_def split: option.splits json.splits)

lemma opt_id_errors:
  "property_errors payload (f, [IsNumber, IsOptional]) = []
     \<longleftrightarrow> absent (map_of payload f) \<or> (\<exists>k. map_of payload f = Some (JNum k))"
  by (auto simp: property_errors_def Let_def absent_def split: option.splits json.splits)

lemma update_class_unfolded:
  "UpdatePostDto_class =
     [(''userId'', [IsNumber, IsNotEmpty, IsOptional]),
      (''title'', [IsString, IsNotEmpty, MinLength 5 ''Title must be at least 5 characters long'',
                   IsOptional]),
      (''body'', [IsString, IsNotEmpty, MinLength 10 ''Body must be at least 10 characters long'',
                  IsOptional]),
      (''id'', [IsNumber, IsOptional])]"
  by (simp add: dto_defs)

lemma accepted_update_iff:
  "accepted UpdatePostDto_class payload \<longleftrightarrow>
     set (map fst payload) \<subseteq> {''userId'', ''title'', ''body'', ''id''}
     \<and> (absent (map_of payload ''userId'') \<or> (\<exists>k. map_of payload ''userId'' = Some (JNum k)))
     \<and> (absent (map_of payload ''title'')
          \<or> (\<exists>t. map_of payload ''title'' = Some (JStr t) \<and> 5 \<le> length t))
     \<and> (absent (map_of payload ''body'')
          \<or> (\<exists>b. map_of payload ''body'' = Some (JStr b) \<and> 10 \<le> length b))
     \<and> (absent (map_of payload ''id'') \<or> (\<exists>k. map_of payload ''id'' = Some (JNum k)))"
proof -
  have "accepted UpdatePostDto_class payload \<longleftrightarrow>
     set (map fst payload) \<subseteq> {''userId'', ''title'', ''body'', ''id''}
     \<and> property_errors payload (''userId'', [IsNumber, IsNotEmpty, IsOptional]) = []
     \<and> property_errors payload (''title'',
           [IsString, IsNotEmpty, MinLength 5 ''Title must be at least 5 characters long'',
            IsOptional]) = []
     \<and> property_errors payload (''body'',
           [IsString, IsNotEmpty, MinLength 10 ''Body must be at least 10 characters long'',
            IsOptional]) = []
     \<and> property_errors payload (''id'', [IsNumber, IsOptional]) = []"
    unfolding accepted_def unknown_none update_class_unfolded
    by (simp only: list.map concat.simps append_is_Nil_conv fst_conv list.set append_Nil2) 
  also have "\<dots> \<longleftrightarrow>
     set (map fst payload) \<subseteq> {''userId'', ''title'', ''body'', ''id''}
     \<and> (absent (map_of payload ''userId'') \<or> (\<exists>k. map_of payload ''userId'' = Some (JNum k)))
     \<and> (absent (map_of payload ''title'')
          \<or> (\<exists>t. map_of payload ''title'' = Some (JStr t) \<and> 5 \<le> length t))
     \<and> (absent (map_of payload ''body'')
          \<or> (\<exists>b. map_of payload ''body'' = Some (JStr b) \<and> 10 \<le> length b))
     \<and> (absent (map_of payload ''id'') \<or> (\<exists>k. map_of payload ''id'' = Some (JNum k)))"
    by (simp only: opt_string_errors opt_number_errors opt_id_errors zero_less_numeral)
  finally show ?thesis .
qed

lemma map_of_restrict:
  "map_of (filter (\<lambda>kv. fst kv \<in> K) xs) k = (if k \<in> K then map_of xs k else None)"
  by (induction xs) auto

lemma create_title_errors:
  "errors_on CreatePostDto_class payload ''title''
     = property_errors payload (''title'',
         [IsString, IsNotEmpty, MinLength 5 ''Title must be at least 5 characters long''])"
  by (simp add: errors_on_def dto_defs)

lemma update_title_errors:
  "errors_on UpdatePostDto_class payload ''title''
     = property_errors payload (''title'',
         [IsString, IsNotEmpty, MinLength 5 ''Title must be at least 5 characters long'',
          IsOptional])"
  by (simp add: errors_on_def dto_defs)

lemma update_omitted:
  assumes "map_of payload f = None"
  shows "errors_on UpdatePostDto_class payload f = []"
proof -
  have "property_errors payload (f, ds @ [IsOptional]) = []" for ds
    using assms by (simp add: property_errors_def absent_def)
  from this [of "[IsNumber, IsNotEmpty]"] this [of "[IsNumber]"]
    this [of "[IsString, IsNotEmpty, MinLength 5 ''Title must be at least 5 characters long'']"]
    this [of "[IsString, IsNotEmpty, MinLength 10 ''Body must be at least 10 characters long'']"]
  show ?thesis
    unfolding errors_on_def update_class_unfolded by simp
qed

lemma subset_of_create_is_update:
  assumes "accepted CreatePostDto_class payload"
  shows "accepted UpdatePostDto_class (filter (\<lambda>kv. fst kv \<in> K) payload)"
proof -
  let ?q = "filter (\<lambda>kv. fst kv \<in> K) payload"
  from assms have keys: "set (map fst payload) \<subseteq> {''userId'', ''title'', ''body''}"
    and u: "\<exists>k. map_of payload ''userId'' = Some (JNum k)"
    and t: "\<exists>t. map_of payload ''title'' = Some (JStr t) \<and> 5 \<le> length t"
    and b: "\<exists>b. map_of payload ''body'' = Some (JStr b) \<and> 10 \<le> length b"
    unfolding accepted_create_iff by blast+
  from keys have "''id'' \<notin> fst ` set payload" by auto
  then have i: "map_of payload ''id'' = None" by (simp add: map_of_eq_None_iff)
  have k': "set (map fst ?q) \<subseteq> {''userId'', ''title'', ''body'', ''id''}"
    using keys by auto
  have u': "absent (map_of ?q ''userId'') \<or> (\<exists>k. map_of ?q ''userId'' = Some (JNum k))"
    using u unfolding map_of_restrict by (simp add: absent_def)
  have t': "absent (map_of ?q ''title'')
      \<or> (\<exists>t. map_of ?q ''title'' = Some (JStr t) \<and> 5 \<le> length t)"
    using t unfolding map_of_restrict by (simp add: absent_def)
  have b': "absent (map_of ?q ''body'')
      \<or> (\<exists>b. map_of ?q ''body'' = Some (JStr b) \<and> 10 \<le> length b)"
    using b unfolding map_of_restrict by (simp add: absent_def)
  have i': "absent (map_of ?q ''id'') \<or> (\<exists>k. map_of ?q ''id'' = Some (JNum k))"
    using i unfolding map_of_restrict by (simp add: absent_def)
  from k' u' t' b' i' show ?thesis unfolding accepted_update_iff by blast
qed

section \<open>Validation: the claim\<close>

text \<open>
  \<^bold>\<open>C4\<close>: a payload whose \<open>title\<close> is a string of length 4, or whose \<open>body\<close> is a
  string shorter than 10, is accepted neither as a \<open>CreatePostDto\<close> nor as an
  \<open>UpdatePostDto\<close>; a \<open>title\<close> of length 5 raises no violation on \<open>title\<close> in either
  class; in an update payload a property that is omitted raises no violation; and every
  payload obtained from an accepted create payload by keeping any subset of its
  properties is an accepted update payload.
\<close>

theorem min_length_validation:
  "(map_of payload ''title'' = Some (JStr t) \<and> length t = 4 \<longrightarrow>
       \<not> accepted CreatePostDto_class payload \<and> \<not> accepted UpdatePostDto_class payload)
   \<and> (map_of payload ''body'' = Some (JStr b) \<and> length b < 10 \<longrightarrow>
       \<not> accepted CreatePostDto_class payload \<and> \<not> accepted UpdatePostDto_class payload)
   \<and> (map_of payload ''title'' = Some (JStr t') \<and> length t' = 5 \<longrightarrow>
       errors_on CreatePostDto_class payload ''title'' = []
       \<and> errors_on UpdatePostDto_class payload ''title'' = [])
   \<and> (map_of payload f = None \<longrightarrow> errors_on UpdatePostDto_class payload f = [])
   \<and> (accepted CreatePostDto_class payload \<longrightarrow>
       accepted UpdatePostDto_class (filter (\<lambda>kv. fst kv \<in> K) payload))"
proof (intro conjI impI)
  assume "map_of payload ''title'' = Some (JStr t) \<and> length t = 4"
  then show "\<not> accepted CreatePostDto_class payload" "\<not> accepted UpdatePostDto_class payload"
    unfolding accepted_create_iff accepted_update_iff by (auto simp: absent_def)
next
  assume "map_of payload ''body'' = Some (JStr b) \<and> length b < 10"
  then show "\<not> accepted CreatePostDto_class payload" "\<not> accepted UpdatePostDto_class payload"
    unfolding accepted_create_iff accepted_update_iff by (auto simp: absent_def)
next
  assume "map_of payload ''title'' = Some (JStr t') \<and> length t' = 5"
  then show "errors_on CreatePostDto_class payload ''title'' = []"
    and "errors_on UpdatePostDto_class payload ''title'' = []"
    unfolding create_title_errors update_title_errors
    by (auto simp: property_errors_def absent_def Let_def)
next
  assume "map_of payload f = None"
  then show "errors_on UpdatePostDto_class payload f = []" by (rule update_omitted)
next
  assume "accepted CreatePostDto_class payload"
  then show "accepted UpdatePostDto_class (filter (\<lambda>kv. fst kv \<in> K) payload)"
    by (rule subset_of_create_is_update)
qed

text \<open>
  An instance of C4: a title of four characters, a short body, a title of five
  characters alone in an update, and the restriction of a full payload to its title.
\<close>

theorem min_length_validation_witness:
  "map_of [(''userId'', JNum 1), (''title'', JStr ''Four''), (''body'', JStr ''Hello, world'')] ''title''
     = Some (JStr ''Four'')
   \<and> length ''Four'' = 4
   \<and> \<not> accepted CreatePostDto_class
         [(''userId'', JNum 1), (''title'', JStr ''Four''), (''body'', JStr ''Hello, world'')]
   \<and> map_of [(''body'', JStr ''too short'')] ''body'' = Some (JStr ''too short'')
   \<and> length ''too short'' < 10
   \<and> \<not> accepted UpdatePostDto_class [(''body'', JStr ''too short'')]
   \<and> map_of [(''title'', JStr ''Hello'')] ''title'' = Some (JStr ''Hello'')
   \<and> length ''Hello'' = 5
   \<and> errors_on UpdatePostDto_class [(''title'', JStr ''Hello'')] ''title'' = []
   \<and> map_of [(''title'', JStr ''Hello'')] ''body'' = None
   \<and> errors_on UpdatePostDto_class [(''title'', JStr ''Hello'')] ''body'' = []
   \<and> accepted CreatePostDto_class
         [(''userId'', JNum 1), (''title'', JStr ''Hello''), (''body'', JStr ''Hello, world'')]
   \<and> accepted UpdatePostDto_class
         (filter (\<lambda>kv. fst kv \<in> {''title''})
            [(''userId'', JNum 1), (''title'', JStr ''Hello''), (''body'', JStr ''Hello, world'')])"
proof -
  let ?a = "[(''userId'', JNum 1), (''title'', JStr ''Four''), (''body'', JStr ''Hello, world'')]"
  let ?b = "[(''body'', JStr ''too short'')]"
  let ?c = "[(''title'', JStr ''Hello'')]"
  let ?d = "[(''userId'', JNum 1), (''title'', JStr ''Hello''), (''body'', JStr ''Hello, world'')]"
  have a: "map_of ?a ''title'' = Some (JStr ''Four'')" "length ''Four'' = 4" by simp_all
  have b: "map_of ?b ''body'' = Some (JStr ''too short'')" "length ''too short'' < 10"
    by simp_all
  have c: "map_of ?c ''title'' = Some (JStr ''Hello'')" "length ''Hello'' = 5" by simp_all
  have c': "map_of ?c ''body'' = None" by simp
  have d: "accepted CreatePostDto_class ?d"
    by (simp add: accepted_def unknown_properties_def property_errors_def dto_defs)
  from min_length_validation [of ?a "''Four''"] a
  have 1: "\<not> accepted CreatePostDto_class ?a" by blast
  from min_length_validation [of ?b _ "''too short''"] b
  have 2: "\<not> accepted UpdatePostDto_class ?b" by blast
  from min_length_validation [of ?c _ _ "''Hello''"] c
  have 3: "errors_on UpdatePostDto_class ?c ''title'' = []" by blast
  from min_length_validation [of ?c _ _ _ "''body''"] c'
  have 4: "errors_on UpdatePostDto_class ?c ''body'' = []" by blast
  from min_length_validation [of ?d _ _ _ _ "{''title''}"] d
  have 5: "accepted UpdatePostDto_class (filter (\<lambda>kv. fst kv \<in> {''title''}) ?d)" by blast
  from a b c c' d 1 2 3 4 5 show ?thesis by blast
qed

section \<open>The HTTP client: the claims\<close>

lemmas wrapper_defs = api_get_def api_post_def api_put_def api_patch_def api_delete_def

lemma unwrap_cases:
  "unwrap j = (case j of JObj kvs \<Rightarrow> (case map_of kvs ''data'' of Some v \<Rightarrow> v | None \<Rightarrow> j)
               | _ \<Rightarrow> j)"
  by (cases j) (auto simp: unwrap_def has_data_def split: option.splits)

lemma handleHttpError_status: "e_status (handleHttpError parse r) = status r"
  by (simp add: handleHttpError_def Let_def split: sum.splits)

subsection \<open>C8: the envelope\<close>

text \<open>
  \<^bold>\<open>C8\<close>: on a response with a success status whose body decodes to \<open>j\<close>, each of
  \<open>get\<close>, \<open>post\<close>, \<open>put\<close> and \<open>patch\<close> resolves to the \<open>data\<close> property of \<open>j\<close> when \<open>j\<close>
  is an object that has one, and to \<open>j\<close> itself otherwise; so does \<open>delete\<close>, which reads
  the text before decoding it, whenever the text is not empty (no JSON text is).
\<close>

theorem wrappers_unwrap_envelope:
  assumes "ok r" and "parse (text_of r) = Inr j"
  shows "(\<forall>w\<in>{api_get, api_post, api_put, api_patch}.
            w parse (Responded r)
              = Inr (case j of
                       JObj kvs \<Rightarrow> (case map_of kvs ''data'' of Some v \<Rightarrow> v | None \<Rightarrow> j)
                     | _ \<Rightarrow> j))
       \<and> (text_of r \<noteq> [] \<longrightarrow>
            api_delete parse (Responded r)
              = Inr (case j of
                       JObj kvs \<Rightarrow> (case map_of kvs ''data'' of Some v \<Rightarrow> v | None \<Rightarrow> j)
                     | _ \<Rightarrow> j))"
  using assms by (simp add: wrapper_defs unwrap_cases)

text \<open>
  An instance of C8: an enveloped body read by \<open>get\<close> and \<open>delete\<close>, a bare object
  read by \<open>post\<close>.
\<close>

theorem wrappers_unwrap_envelope_witness:
  \<open>ok \<lparr>status = 200, statusText = ''OK'', text_of = ''{"data":7}''\<rparr>
   \<and> sample_parse ''{"data":7}'' = Inr (JObj [(''data'', JNum 7)])
   \<and> api_get sample_parse (Responded \<lparr>status = 200, statusText = ''OK'', text_of = ''{"data":7}''\<rparr>)
       = Inr (JNum 7)
   \<and> api_delete sample_parse (Responded \<lparr>status = 200, statusText = ''OK'', text_of = ''{"data":7}''\<rparr>)
       = Inr (JNum 7)
   \<and> ok \<lparr>status = 201, statusText = ''Created'', text_of = ''{"id":7}''\<rparr>
   \<and> sample_parse ''{"id":7}'' = Inr (JObj [(''id'', JNum 7)])
   \<and> api_post sample_parse (Responded \<lparr>status = 201, statusText = ''Created'', text_of = ''{"id":7}''\<rparr>)
       = Inr (JObj [(''id'', JNum 7)])\<close>
proof -
  let ?r = \<open>\<lparr>status = 200, statusText = ''OK'', text_of = ''{"data":7}''\<rparr>\<close>
  let ?q = \<open>\<lparr>status = 201, statusText = ''Created'', text_of = ''{"id":7}''\<rparr>\<close>
  have o: "ok ?r" "ok ?q" by (simp_all add: ok_def)
  have p: \<open>sample_parse ''{"data":7}'' = Inr (JObj [(''data'', JNum 7)])\<close>
    by (simp add: sample_parse_def)
  have p': \<open>sample_parse ''{"id":7}'' = Inr (JObj [(''id'', JNum 7)])\<close>
    by (simp add: sample_parse_def)
  from wrappers_unwrap_envelope [of ?r sample_parse "JObj [(''data'', JNum 7)]"] o p
  have a: "api_get sample_parse (Responded ?r) = Inr (JNum 7)"
    and b: "api_delete sample_parse (Responded ?r) = Inr (JNum 7)" by simp_all
  from wrappers_unwrap_envelope [of ?q sample_parse "JObj [(''id'', JNum 7)]"] o p'
  have c: "api_post sample_parse (Responded ?q) = Inr (JObj [(''id'', JNum 7)])" by simp
  from o p p' a b c show ?thesis by simp
qed

subsection \<open>C9: the status 0\<close>

text \<open>
  \<^bold>\<open>C9\<close> as stated does not hold: a response that did arrive, with a success status
  and a body that does not decode, also ends in an error of status 0
  (\<open>handleRequestError\<close> serves "network, parsing" errors alike). What holds: when
  \<open>fetch\<close> rejects, every wrapper rejects with an error of status 0; on a response
  without a success status, every wrapper rejects with the record of \<open>handleHttpError\<close>,
  whose status is the status of the response; on a response with a success status whose
  body does not decode, \<open>get\<close>, \<open>post\<close>, \<open>put\<close> and \<open>patch\<close> reject with an error of
  status 0, and so does \<open>delete\<close> when the text is not empty.
\<close>

theorem error_status_normalization:
  "(\<forall>w\<in>{api_get, api_post, api_put, api_patch, api_delete}.
       w parse (Rejected m) = Inl (handleRequestError (ErrorObject m)))
   \<and> e_status (handleRequestError (ErrorObject m)) = 0
   \<and> (\<not> ok r \<longrightarrow>
        (\<forall>w\<in>{api_get, api_post, api_put, api_patch, api_delete}.
           w parse (Responded r) = Inl (handleHttpError parse r))
        \<and> e_status (handleHttpError parse r) = status r)
   \<and> (ok r \<and> parse (text_of r) = Inl m' \<longrightarrow>
        (\<forall>w\<in>{api_get, api_post, api_put, api_patch}.
           w parse (Responded r) = Inl (handleRequestError (ErrorObject m')))
        \<and> (text_of r \<noteq> [] \<longrightarrow>
             api_delete parse (Responded r) = Inl (handleRequestError (ErrorObject m')))
        \<and> e_status (handleRequestError (ErrorObject m')) = 0)"
  by (simp add: wrapper_defs handleHttpError_status)

text \<open>
  An instance of C9: a rejected fetch, a 404 with the body \<open>null\<close>, and a 200 whose
  body is no JSON.
\<close>

theorem error_status_normalization_witness:
  \<open>api_get sample_parse (Rejected ''Failed to fetch'')
     = Inl \<lparr>e_status = 0, e_message = JStr ''Failed to fetch'',
            e_details = JStr ''Request failed due to network issues''\<rparr>
   \<and> \<not> ok \<lparr>status = 404, statusText = ''Not Found'', text_of = ''null''\<rparr>
   \<and> api_delete sample_parse
         (Responded \<lparr>status = 404, statusText = ''Not Found'', text_of = ''null''\<rparr>)
       = Inl \<lparr>e_status = 404, e_message = JStr ''Not Found'', e_details = JStr []\<rparr>
   \<and> ok \<lparr>status = 200, statusText = ''OK'', text_of = ''<html>''\<rparr>
   \<and> sample_parse ''<html>'' = Inl ''Unexpected token''
   \<and> api_patch sample_parse (Responded \<lparr>status = 200, statusText = ''OK'', text_of = ''<html>''\<rparr>)
       = Inl \<lparr>e_status = 0, e_message = JStr ''Unexpected token'',
              e_details = JStr ''Request failed due to network issues''\<rparr>\<close>
proof -
  let ?r = "\<lparr>status = 404, statusText = ''Not Found'', text_of = ''null''\<rparr>"
  let ?q = "\<lparr>status = 200, statusText = ''OK'', text_of = ''<html>''\<rparr>"
  have o: "\<not> ok ?r" "ok ?q" by (simp_all add: ok_def)
  have p: "sample_parse ''<html>'' = Inl ''Unexpected token''"
    by (simp add: sample_parse_def)
  have h: "handleHttpError sample_parse ?r
      = \<lparr>e_status = 404, e_message = JStr ''Not Found'', e_details = JStr []\<rparr>"
    by (simp add: handleHttpError_def Let_def sample_parse_def)
  from error_status_normalization [of sample_parse "''Failed to fetch''"]
  have a: "api_get sample_parse (Rejected ''Failed to fetch'')
      = Inl (handleRequestError (ErrorObject ''Failed to fetch''))" by simp
  from error_status_normalization [of sample_parse _ ?r] o
  have b: "api_delete sample_parse (Responded ?r) = Inl (handleHttpError sample_parse ?r)"
    by simp
  from error_status_normalization [of sample_parse _ ?q "''Unexpected token''"] o p
  have c: "api_patch sample_parse (Responded ?q)
      = Inl (handleRequestError (ErrorObject ''Unexpected token''))" by simp
  from o p a b c h show ?thesis by simp
qed

text \<open>
  The counterexample to C9 as stated: \<open>get\<close> on a response 200 whose body is
  \<open><html>\<close> rejects with status 0.
\<close>

theorem undecodable_success_body_gives_status_zero:
  \<open>api_get sample_parse (Responded \<lparr>status = 200, statusText = ''OK'', text_of = ''<html>''\<rparr>)
     = Inl \<lparr>e_status = 0, e_message = JStr ''Unexpected token'',
            e_details = JStr ''Request failed due to network issues''\<rparr>\<close>
  by (simp add: api_get_def ok_def sample_parse_def)

end
